theory Spec2Isabelle
  imports Complex_Main "HOL-Library.Stream" "HOL-Library.AList"
begin

section \<open>Helpers and the random source\<close>

text \<open>
  Python exceptions that the modelled code can raise. A \<open>KeyError\<close> is only ever raised
  inside the aggregator's \<open>try\<close> blocks, where it is caught, so it is a branch of the
  model there and not a value of this type.
\<close>

datatype py_error = IndexError | TypeError | ZeroDivisionError

text \<open>\<open>sumList\<close>: the accumulating \<open>for\<close> loop over the list, starting from 0.\<close>

definition sumList :: "int list \<Rightarrow> int" where
  "sumList vs = foldl (\<lambda>acc v. acc + v) 0 vs"

text \<open>
  The generator behind \<open>random.randint\<close> is not part of the repository. It is an injected
  stream of raw draws; \<open>randint a b\<close> reduces the next draw into the closed range
  \<open>[a, b]\<close>, which is all the library promises. The die and the coin of
  \<open>randomDecision\<close> are fed from two separate streams.
\<close>

type_synonym source = "nat stream"

definition randint :: "int \<Rightarrow> int \<Rightarrow> source \<Rightarrow> int \<times> source" where
  "randint a b src = (a + int (shd src mod nat (b - a + 1)), stl src)"

definition rollDie :: "source \<Rightarrow> int \<times> source" where
  "rollDie dice = randint 1 6 dice"

section \<open>Decision functions and strategies\<close>

text \<open>
  \<open>constant_parameters\<close> is an untyped Python list; the elements the repository puts
  there are integers and lists of integers.
\<close>

datatype param = PInt int | PList "int list"

text \<open>
  A decision function receives \<open>winning_score\<close>, \<open>current_score\<close>, \<open>opponent_score\<close>,
  \<open>current_rolls\<close>, \<open>constant_parameters\<close> and the coin stream; it raises or returns
  its boolean and the rest of the coin stream. It reads the roll sequence and does not
  change it, as all functions of the module do.
\<close>

type_synonym decision =
  "int \<Rightarrow> int \<Rightarrow> int \<Rightarrow> int list \<Rightarrow> param list \<Rightarrow> source \<Rightarrow> py_error + (bool \<times> source)"

record decisionFunction =
  decision_function :: decision
  constant_parameters :: "param list"

definition getDecision ::
  "decisionFunction \<Rightarrow> int \<Rightarrow> int \<Rightarrow> int \<Rightarrow> int list \<Rightarrow> source \<Rightarrow> py_error + (bool \<times> source)" where
  "getDecision df wsc csc osc current_rolls coins =
     decision_function df wsc csc osc current_rolls (constant_parameters df) coins"

text \<open>
  A strategy object has the immutable attributes \<open>name\<close> and \<open>decision_function\<close> and the
  two attributes \<open>runSimulation\<close> mutates, \<open>winning_score\<close> and \<open>current_score\<close>. The
  mutable ones live in a store indexed by the object's identity \<open>ref\<close>, so that passing
  the same object as both players is covered.
\<close>

record fields =
  winning_score :: int
  current_score :: int

type_synonym store = "nat \<Rightarrow> fields"

record strategy =
  name :: string
  ref :: nat
  strategy_decision :: decisionFunction

definition strategy_getDecision ::
  "store \<Rightarrow> strategy \<Rightarrow> int \<Rightarrow> int list \<Rightarrow> source \<Rightarrow> py_error + (bool \<times> source)" where
  "strategy_getDecision h self opponent_score current_rolls coins =
     getDecision (strategy_decision self) (winning_score (h (ref self)))
       (current_score (h (ref self))) opponent_score current_rolls coins"

subsection \<open>The base strategy functions\<close>

text \<open>
  The parameters \<open>winning_score\<close>, \<open>current_score\<close>, \<open>opponent_score\<close> and
  \<open>constant_parameters\<close> of the source are written \<open>wsc\<close>, \<open>csc\<close>, \<open>osc\<close> and
  \<open>cps\<close> here (the long names are the attribute selectors). The \<open>case\<close> on \<open>cps\<close> is
  the subscript \<open>constant_parameters[0]\<close> followed by the comparison or the
  membership test, which raises a \<open>TypeError\<close> on an operand of the wrong kind.
\<close>

definition untilValue :: decision where
  "untilValue wsc csc osc current_rolls cps coins =
     (case cps of
        [] \<Rightarrow> Inl IndexError
      | PList _ # _ \<Rightarrow> Inl TypeError
      | PInt val # _ \<Rightarrow>
          if sumList current_rolls \<ge> val then Inr (True, coins) else Inr (False, coins))"

definition untilRoll :: decision where
  "untilRoll wsc csc osc current_rolls cps coins =
     (if current_rolls = [] then Inl IndexError
      else case cps of
        [] \<Rightarrow> Inl IndexError
      | PInt _ # _ \<Rightarrow> Inl TypeError
      | PList vals # _ \<Rightarrow>
          if last current_rolls \<in> set vals then Inr (False, coins) else Inr (True, coins))"

definition randomDecision :: decision where
  "randomDecision wsc csc osc current_rolls cps coins =
     (case randint 0 1 coins of (i, coins') \<Rightarrow> Inr ([True, False] ! nat i, coins'))"

definition alwaysTrue :: decision where
  "alwaysTrue wsc csc osc current_rolls cps coins =
     Inr (True, coins)"

definition alwaysFalse :: decision where
  "alwaysFalse wsc csc osc current_rolls cps coins =
     Inr (False, coins)"

definition agroAfter :: decision where
  "agroAfter wsc csc osc current_rolls cps coins =
     (case cps of
        [] \<Rightarrow> Inl IndexError
      | PList _ # _ \<Rightarrow> Inl TypeError
      | PInt delta # _ \<Rightarrow>
          if wsc - csc \<le> delta then Inr (True, coins)
          else randomDecision wsc csc osc current_rolls
                 cps coins)"

definition agroAfterOpponent :: decision where
  "agroAfterOpponent wsc csc osc current_rolls cps coins =
     (case cps of
        [] \<Rightarrow> Inl IndexError
      | PList _ # _ \<Rightarrow> Inl TypeError
      | PInt delta # _ \<Rightarrow>
          if wsc - osc \<le> delta then Inr (True, coins)
          else randomDecision wsc csc osc current_rolls
                 cps coins)"

definition beatOpponent :: decision where
  "beatOpponent wsc csc osc current_rolls cps coins =
     (if csc < osc then Inr (True, coins)
      else randomDecision wsc csc osc current_rolls
             cps coins)"

subsection \<open>Strategy objects of the module\<close>

text \<open>
  Four of the module's strategy objects, the ones used below. The identity of each is its
  position in the module's list \<open>strategies\<close>.
\<close>

definition untilReach5 :: strategy where
  "untilReach5 = \<lparr>name = ''untilReach5'', ref = 1,
     strategy_decision = \<lparr>decision_function = untilValue, constant_parameters = [PInt 5]\<rparr>\<rparr>"

definition untilRoll6 :: strategy where
  "untilRoll6 = \<lparr>name = ''untilRoll6'', ref = 10,
     strategy_decision = \<lparr>decision_function = untilRoll, constant_parameters = [PList [6]]\<rparr>\<rparr>"

definition alwaysTrueStrategy :: strategy where
  "alwaysTrueStrategy = \<lparr>name = ''alwaysTrue'', ref = 16,
     strategy_decision = \<lparr>decision_function = alwaysTrue, constant_parameters = []\<rparr>\<rparr>"

definition alwaysFalseStrategy :: strategy where
  "alwaysFalseStrategy = \<lparr>name = ''alwaysFalse'', ref = 17,
     strategy_decision = \<lparr>decision_function = alwaysFalse, constant_parameters = []\<rparr>\<rparr>"

section \<open>The game engine\<close>

text \<open>
  The inner \<open>while\<close> loop of a turn, entered with the pending \<open>current_moves\<close>. The
  store is only read: the banked score changes after the loop. \<open>me\<close> is the strategy
  whose turn it is, \<open>opp\<close> the other one.
\<close>

function turn_loop ::
  "int \<Rightarrow> store \<Rightarrow> strategy \<Rightarrow> strategy \<Rightarrow> int list \<Rightarrow> source \<Rightarrow> source
     \<Rightarrow> py_error + (int list \<times> source \<times> source)" where
  "turn_loop w h me opp current_moves dice coins =
     (if current_score (h (ref me)) + sumList current_moves < w then
        (case rollDie dice of (roll, dice') \<Rightarrow>
           if roll = 1 then Inr ([], dice', coins)
           else
             (case strategy_getDecision h me (current_score (h (ref opp)))
                     (current_moves @ [roll]) coins of
                Inl e \<Rightarrow> Inl e
              | Inr (dec, coins') \<Rightarrow>
                  if \<not> dec then Inr (current_moves @ [roll], dice', coins')
                  else turn_loop w h me opp (current_moves @ [roll]) dice' coins'))
      else Inr (current_moves, dice, coins))"
  by pat_completeness auto
termination
  apply (relation "measure (\<lambda>(w, h, me, opp, current_moves, dice, coins).
          nat (w - current_score (h (ref me)) - sumList current_moves))")
   apply simp
  apply (auto simp: rollDie_def randint_def sumList_def)
  done

declare turn_loop.simps [simp del]

text \<open>The assignment after the loop: the pending sequence is added to the banked score.\<close>

definition bank :: "store \<Rightarrow> strategy \<Rightarrow> int list \<Rightarrow> store" where
  "bank h me current_moves =
     h(ref me := (h (ref me))\<lparr>current_score := current_score (h (ref me)) + sumList current_moves\<rparr>)"

text \<open>
  The rest of a turn from the head of its loop: the loop, then the assignment. A turn
  starts it with \<open>current_moves = []\<close>.
\<close>

definition finish_turn ::
  "int \<Rightarrow> store \<Rightarrow> strategy \<Rightarrow> strategy \<Rightarrow> int list \<Rightarrow> source \<Rightarrow> source
     \<Rightarrow> py_error + (store \<times> source \<times> source)" where
  "finish_turn w h me opp current_moves dice coins =
     (case turn_loop w h me opp current_moves dice coins of
        Inl e \<Rightarrow> Inl e
      | Inr (moves, dice', coins') \<Rightarrow> Inr (bank h me moves, dice', coins'))"

text \<open>
  The outer \<open>while True\<close> loop. It has no bound in the source, so the model takes the
  number of rounds it may run as fuel: \<open>None\<close> is a game still running after that many
  rounds. \<open>s1\<close> and \<open>s2\<close> are the source's \<open>strategy_1\<close> and \<open>strategy_2\<close>, \<open>w\<close> its
  \<open>winning_score\<close>.
\<close>

fun game_loop ::
  "nat \<Rightarrow> strategy \<Rightarrow> strategy \<Rightarrow> int \<Rightarrow> store \<Rightarrow> source \<Rightarrow> source
     \<Rightarrow> (py_error + (store \<times> source \<times> source)) option" where
  "game_loop 0 s1 s2 w h dice coins = None"
| "game_loop (Suc fuel) s1 s2 w h dice coins =
     (case finish_turn w h s1 s2 [] dice coins of
        Inl e \<Rightarrow> Some (Inl e)
      | Inr (h1, dice1, coins1) \<Rightarrow>
          if current_score (h1 (ref s1)) \<ge> w then Some (Inr (h1, dice1, coins1))
          else
            (case finish_turn w h1 s2 s1 [] dice1 coins1 of
               Inl e \<Rightarrow> Some (Inl e)
             | Inr (h2, dice2, coins2) \<Rightarrow>
                 if current_score (h2 (ref s2)) \<ge> w then Some (Inr (h2, dice2, coins2))
                 else game_loop fuel s1 s2 w h2 dice2 coins2))"

text \<open>The four assignments at the start of \<open>runSimulation\<close>.\<close>

definition reset_scores :: "strategy \<Rightarrow> strategy \<Rightarrow> int \<Rightarrow> store \<Rightarrow> store" where
  "reset_scores s1 s2 w h =
     (h(ref s1 := \<lparr>winning_score = w, current_score = 0\<rparr>))
       (ref s2 := \<lparr>winning_score = w, current_score = 0\<rparr>)"

text \<open>
  The code after the loop: the winner's name and the margin. The returned list
  \<open>[winner, margin]\<close> is a pair.
\<close>

definition game_result :: "strategy \<Rightarrow> strategy \<Rightarrow> int \<Rightarrow> store \<Rightarrow> string \<times> int" where
  "game_result s1 s2 w h =
     (if current_score (h (ref s1)) \<ge> w
      then (name s1, 100 - current_score (h (ref s2)))
      else (name s2, 100 - current_score (h (ref s1))))"

definition runSimulation ::
  "nat \<Rightarrow> strategy \<Rightarrow> strategy \<Rightarrow> int \<Rightarrow> store \<Rightarrow> source \<Rightarrow> source
     \<Rightarrow> (py_error + ((string \<times> int) \<times> store \<times> source \<times> source)) option" where
  "runSimulation fuel s1 s2 w h dice coins =
     (case game_loop fuel s1 s2 w (reset_scores s1 s2 w h) dice coins of
        None \<Rightarrow> None
      | Some (Inl e) \<Rightarrow> Some (Inl e)
      | Some (Inr (h', dice', coins')) \<Rightarrow>
          Some (Inr (game_result s1 s2 w h', h', dice', coins')))"

section \<open>The batch runner\<close>

text \<open>
  Python's true division \<open>/\<close> on integers. Floats are exact rationals in this model:
  which expression is computed and whether a divisor is zero are kept, rounding is not.
\<close>

definition true_div :: "int \<Rightarrow> int \<Rightarrow> py_error + rat" where
  "true_div a b = (if b = 0 then Inl ZeroDivisionError else Inr (of_int a / of_int b))"

record settings =
  game_count :: int
  gs_winning_score :: int
  strategy_1 :: string
  strategy_2 :: string

text \<open>The two-element lists of a batch record are pairs.\<close>

record batch =
  game_settings :: settings
  win_count :: "int \<times> int"
  win_margins :: "int list \<times> int list"
  average_margins :: "rat \<times> rat"

text \<open>The first loop: \<open>games\<close> calls of \<open>runSimulation\<close>, each with the same fuel.\<close>

fun play_games ::
  "nat \<Rightarrow> nat \<Rightarrow> strategy \<Rightarrow> strategy \<Rightarrow> int \<Rightarrow> store \<Rightarrow> source \<Rightarrow> source
     \<Rightarrow> (py_error + ((string \<times> int) list \<times> store \<times> source \<times> source)) option" where
  "play_games 0 fuel s1 s2 w h dice coins = Some (Inr ([], h, dice, coins))"
| "play_games (Suc n) fuel s1 s2 w h dice coins =
     (case runSimulation fuel s1 s2 w h dice coins of
        None \<Rightarrow> None
      | Some (Inl e) \<Rightarrow> Some (Inl e)
      | Some (Inr (results, h', dice', coins')) \<Rightarrow>
          (case play_games n fuel s1 s2 w h' dice' coins' of
             None \<Rightarrow> None
           | Some (Inl e) \<Rightarrow> Some (Inl e)
           | Some (Inr (results_list, h'', dice'', coins'')) \<Rightarrow>
               Some (Inr (results # results_list, h'', dice'', coins''))))"

text \<open>
  The second loop, over \<open>results_list\<close>, with the four accumulators
  \<open>strategy_1_wins\<close>, \<open>strategy_2_wins\<close>, \<open>strategy_1_margins\<close>, \<open>strategy_2_margins\<close>.
\<close>

fun tally ::
  "string \<Rightarrow> (string \<times> int) list \<Rightarrow> int \<times> int \<times> int list \<times> int list
     \<Rightarrow> int \<times> int \<times> int list \<times> int list" where
  "tally name1 [] acc = acc"
| "tally name1 (result # results_list) (wins1, wins2, margins1, margins2) =
     (if fst result = name1
      then tally name1 results_list
             (wins1 + 1, wins2, margins1 @ [snd result], margins2 @ [- snd result])
      else tally name1 results_list
             (wins1, wins2 + 1, margins1 @ [- snd result], margins2 @ [snd result]))"

definition runSimulationBlock ::
  "nat \<Rightarrow> strategy \<Rightarrow> strategy \<Rightarrow> int \<Rightarrow> int \<Rightarrow> store \<Rightarrow> source \<Rightarrow> source
     \<Rightarrow> (py_error + (batch \<times> store \<times> source \<times> source)) option" where
  "runSimulationBlock fuel s1 s2 w games h dice coins =
     (case play_games (nat games) fuel s1 s2 w h dice coins of
        None \<Rightarrow> None
      | Some (Inl e) \<Rightarrow> Some (Inl e)
      | Some (Inr (results_list, h', dice', coins')) \<Rightarrow>
          (case tally (name s1) results_list (0, 0, [], []) of
             (wins1, wins2, margins1, margins2) \<Rightarrow>
               (case true_div (sumList margins1) (int (length margins1)) of
                  Inl e \<Rightarrow> Some (Inl e)
                | Inr average1 \<Rightarrow>
                    (case true_div (sumList margins2) (int (length margins2)) of
                       Inl e \<Rightarrow> Some (Inl e)
                     | Inr average2 \<Rightarrow>
                         Some (Inr (\<lparr>game_settings =
                                       \<lparr>game_count = games, gs_winning_score = w,
                                        strategy_1 = name s1, strategy_2 = name s2\<rparr>,
                                     win_count = (wins1, wins2),
                                     win_margins = (margins1, margins2),
                                     average_margins = (average1, average2)\<rparr>,
                                    h', dice', coins'))))))"

section \<open>The aggregator\<close>

record avg =
  average :: rat
  match_count :: int

text \<open>The key \<open>rate\<close> is absent (\<open>None\<close>) until the last loop of \<open>testStrategies\<close> sets it.\<close>

record bucket =
  wins :: int
  losses :: int
  rate :: "rat option"

record win_loss =
  overall :: bucket
  first :: bucket
  second :: bucket

record aggregate =
  games_played :: int
  average_margin :: avg
  win_loss_rate :: win_loss

text \<open>
  \<open>aggregate_results\<close> is a Python dictionary: an association list in insertion order,
  where storing under a key that is present replaces its value in place.
\<close>

type_synonym aggregate_results = "(string \<times> aggregate) list"

text \<open>
  The first \<open>try\<close>/\<open>except KeyError\<close> of the loop body, for the record's \<open>strategy_1\<close>.
  The lookup fails with a \<open>KeyError\<close> exactly when the name is not yet a key, and the
  handler then stores the initial entry. \<open>cr\<close> is the source's \<open>current_results\<close>.
\<close>

definition merge_strategy_1 :: "aggregate_results \<Rightarrow> batch \<Rightarrow> aggregate_results" where
  "merge_strategy_1 agg cr =
     (case map_of agg (strategy_1 (game_settings cr)) of
        Some cur \<Rightarrow>
          AList.update (strategy_1 (game_settings cr))
            \<lparr>games_played = games_played cur + game_count (game_settings cr),
             average_margin =
               \<lparr>average = average (average_margin cur) * of_int (match_count (average_margin cur))
                   + fst (average_margins cr)
                     / of_int (10000 * match_count (average_margin cur) + 1),
                match_count = match_count (average_margin cur) + 1\<rparr>,
             win_loss_rate =
               \<lparr>overall =
                  \<lparr>wins = wins (overall (win_loss_rate cur)) + fst (win_count cr),
                   losses = losses (overall (win_loss_rate cur))
                     + (game_count (game_settings cr) - fst (win_count cr)),
                   rate = None\<rparr>,
                first =
                  \<lparr>wins = wins (first (win_loss_rate cur)) + fst (win_count cr),
                   losses = losses (first (win_loss_rate cur))
                     + (game_count (game_settings cr) - fst (win_count cr)),
                   rate = None\<rparr>,
                second =
                  \<lparr>wins = wins (second (win_loss_rate cur)),
                   losses = losses (second (win_loss_rate cur)),
                   rate = None\<rparr>\<rparr>\<rparr>
            agg
      | None \<Rightarrow>
          AList.update (strategy_1 (game_settings cr))
            \<lparr>games_played = game_count (game_settings cr),
             average_margin =
               \<lparr>average = fst (average_margins cr) / 10000, match_count = 1\<rparr>,
             win_loss_rate =
               \<lparr>overall =
                  \<lparr>wins = fst (win_count cr),
                   losses = game_count (game_settings cr) - fst (win_count cr),
                   rate = None\<rparr>,
                first =
                  \<lparr>wins = fst (win_count cr),
                   losses = game_count (game_settings cr) - fst (win_count cr),
                   rate = None\<rparr>,
                second = \<lparr>wins = 0, losses = 0, rate = None\<rparr>\<rparr>\<rparr>
            agg)"

text \<open>
  The second \<open>try\<close>/\<open>except KeyError\<close>, for the record's \<open>strategy_2\<close>. As in the
  source, every read of the record takes index 0: \<open>average_margins[0]\<close> and
  \<open>win_count[0]\<close>.
\<close>

definition merge_strategy_2 :: "aggregate_results \<Rightarrow> batch \<Rightarrow> aggregate_results" where
  "merge_strategy_2 agg cr =
     (case map_of agg (strategy_2 (game_settings cr)) of
        Some cur \<Rightarrow>
          AList.update (strategy_2 (game_settings cr))
            \<lparr>games_played = games_played cur + game_count (game_settings cr),
             average_margin =
               \<lparr>average = average (average_margin cur) * of_int (match_count (average_margin cur))
                   + fst (average_margins cr)
                     / of_int (10000 * match_count (average_margin cur) + 1),
                match_count = match_count (average_margin cur) + 1\<rparr>,
             win_loss_rate =
               \<lparr>overall =
                  \<lparr>wins = wins (overall (win_loss_rate cur)) + fst (win_count cr),
                   losses = losses (overall (win_loss_rate cur))
                     + (game_count (game_settings cr) - fst (win_count cr)),
                   rate = None\<rparr>,
                first =
                  \<lparr>wins = wins (first (win_loss_rate cur)),
                   losses = losses (first (win_loss_rate cur)),
                   rate = None\<rparr>,
                second =
                  \<lparr>wins = wins (second (win_loss_rate cur)) + fst (win_count cr),
                   losses = losses (second (win_loss_rate cur))
                     + (game_count (game_settings cr) - fst (win_count cr)),
                   rate = None\<rparr>\<rparr>\<rparr>
            agg
      | None \<Rightarrow>
          AList.update (strategy_2 (game_settings cr))
            \<lparr>games_played = game_count (game_settings cr),
             average_margin =
               \<lparr>average = fst (average_margins cr) / 10000, match_count = 1\<rparr>,
             win_loss_rate =
               \<lparr>overall =
                  \<lparr>wins = fst (win_count cr),
                   losses = game_count (game_settings cr) - fst (win_count cr),
                   rate = None\<rparr>,
                first = \<lparr>wins = 0, losses = 0, rate = None\<rparr>,
                second =
                  \<lparr>wins = fst (win_count cr),
                   losses = game_count (game_settings cr) - fst (win_count cr),
                   rate = None\<rparr>\<rparr>\<rparr>
            agg)"

text \<open>One iteration of the loop over the files of \<open>./match_data\<close>.\<close>

definition merge_batch :: "aggregate_results \<Rightarrow> batch \<Rightarrow> aggregate_results" where
  "merge_batch agg cr = merge_strategy_2 (merge_strategy_1 agg cr) cr"

text \<open>The last loop: the three divisions for one strategy, in the source's order.\<close>

definition with_rate :: "bucket \<Rightarrow> py_error + bucket" where
  "with_rate b =
     (case true_div (wins b) (wins b + losses b) of
        Inl e \<Rightarrow> Inl e
      | Inr r \<Rightarrow> Inr (b\<lparr>rate := Some r\<rparr>))"

definition add_rates :: "aggregate \<Rightarrow> py_error + aggregate" where
  "add_rates a =
     (case with_rate (overall (win_loss_rate a)) of
        Inl e \<Rightarrow> Inl e
      | Inr b1 \<Rightarrow>
          (case with_rate (first (win_loss_rate a)) of
             Inl e \<Rightarrow> Inl e
           | Inr b2 \<Rightarrow>
               (case with_rate (second (win_loss_rate a)) of
                  Inl e \<Rightarrow> Inl e
                | Inr b3 \<Rightarrow>
                    Inr (a\<lparr>win_loss_rate := \<lparr>overall = b1, first = b2, second = b3\<rparr>\<rparr>))))"

fun add_winrates :: "aggregate_results \<Rightarrow> py_error + aggregate_results" where
  "add_winrates [] = Inr []"
| "add_winrates ((strategy_name, a) # rest) =
     (case add_rates a of
        Inl e \<Rightarrow> Inl e
      | Inr a' \<Rightarrow>
          (case add_winrates rest of
             Inl e \<Rightarrow> Inl e
           | Inr rest' \<Rightarrow> Inr ((strategy_name, a') # rest')))"

text \<open>
  \<open>testStrategies\<close>, from \<open>aggregate_results = {}\<close> on. Its three parameters are only
  used by the commented-out simulation loop; what it aggregates is \<open>match_data\<close>, the
  records of the files of \<open>./match_data\<close> in the order \<open>os.listdir\<close> gives them.
\<close>

definition testStrategies :: "batch list \<Rightarrow> py_error + aggregate_results" where
  "testStrategies match_data = add_winrates (foldl merge_batch [] match_data)"

text \<open>A bucket with its \<open>rate\<close> key set to \<open>wins / (wins + losses)\<close>.\<close>

abbreviation rated :: "bucket \<Rightarrow> bucket" where
  "rated b \<equiv> b\<lparr>rate := Some (of_int (wins b) / of_int (wins b + losses b))\<rparr>"

section \<open>Properties of the helpers and of one turn\<close>

lemma sumList_sum_list: "sumList vs = sum_list vs"
proof -
  have "foldl (\<lambda>acc v. acc + v) a vs = a + sum_list vs" for a :: int
    by (induction vs arbitrary: a) simp_all
  then show ?thesis by (simp add: sumList_def)
qed

lemma sumList_Nil [simp]: "sumList [] = 0"
  by (simp add: sumList_def)

lemma sumList_snoc [simp]: "sumList (xs @ [x]) = sumList xs + x"
  by (simp add: sumList_def)

lemma sumList_Cons [simp]: "sumList (x # xs) = x + sumList xs"
  by (simp add: sumList_sum_list)

lemma rollDie_bounds: "1 \<le> fst (rollDie dice) \<and> fst (rollDie dice) \<le> 6"
  by (simp add: rollDie_def randint_def)

lemma rollDie_snd [simp]: "snd (rollDie dice) = stl dice"
  by (simp add: rollDie_def randint_def)

lemma turn_loop_unfold:
  "turn_loop w h me opp ms dice coins =
     (if \<not> current_score (h (ref me)) + sumList ms < w then Inr (ms, dice, coins)
      else if fst (rollDie dice) = 1 then Inr ([], stl dice, coins)
      else (case strategy_getDecision h me (current_score (h (ref opp)))
                   (ms @ [fst (rollDie dice)]) coins of
              Inl e \<Rightarrow> Inl e
            | Inr (dec, coins') \<Rightarrow>
                if dec then turn_loop w h me opp (ms @ [fst (rollDie dice)]) (stl dice) coins'
                else Inr (ms @ [fst (rollDie dice)], stl dice, coins')))"
proof -
  obtain roll dice' where r: "rollDie dice = (roll, dice')"
    by (cases "rollDie dice")
  then have "dice' = stl dice"
    using rollDie_snd [of dice] by simp
  with r show ?thesis
    by (subst turn_loop.simps) (simp split: sum.splits prod.splits)
qed

lemma turn_loop_induct [consumes 0, case_names step]:
  fixes h :: store and me opp :: strategy
  assumes step: "\<And>ms dice coins.
     (\<And>coins'. current_score (h (ref me)) + sumList ms < w \<Longrightarrow> fst (rollDie dice) \<noteq> 1 \<Longrightarrow>
        strategy_getDecision h me (current_score (h (ref opp))) (ms @ [fst (rollDie dice)]) coins
          = Inr (True, coins') \<Longrightarrow>
        P (ms @ [fst (rollDie dice)]) (stl dice) coins') \<Longrightarrow>
     P ms dice coins"
  shows "P ms dice coins"
proof -
  have "w' = w \<Longrightarrow> h' = h \<Longrightarrow> me' = me \<Longrightarrow> opp' = opp \<Longrightarrow> P ms dice coins"
    for w' h' me' opp'
  proof (induction w' h' me' opp' ms dice coins rule: turn_loop.induct)
    case (1 w' h' me' opp' current_moves dice coins)
    show ?case
    proof (rule step)
      fix coins'
      assume a: "current_score (h (ref me)) + sumList current_moves < w"
        "fst (rollDie dice) \<noteq> 1"
        "strategy_getDecision h me (current_score (h (ref opp)))
           (current_moves @ [fst (rollDie dice)]) coins = Inr (True, coins')"
      have b: "(fst (rollDie dice), stl dice) = rollDie dice"
        by (simp add: prod_eq_iff)
      show "P (current_moves @ [fst (rollDie dice)]) (stl dice) coins'"
        using "1.IH" [of "fst (rollDie dice)" "stl dice" "(True, coins')" True coins'] a b "1.prems"
        by simp
    qed
  qed
  then show ?thesis by simp
qed

lemma turn_loop_cases [consumes 1, case_names exit bust raise stop continue]:
  fixes h :: store and me opp :: strategy
  assumes "turn_loop w h me opp ms dice coins = r"
  obtains
    (exit) "\<not> current_score (h (ref me)) + sumList ms < w" "r = Inr (ms, dice, coins)"
  | (bust) "current_score (h (ref me)) + sumList ms < w" "fst (rollDie dice) = 1"
      "r = Inr ([], stl dice, coins)"
  | (raise) e where "current_score (h (ref me)) + sumList ms < w" "fst (rollDie dice) \<noteq> 1"
      "strategy_getDecision h me (current_score (h (ref opp))) (ms @ [fst (rollDie dice)]) coins
         = Inl e"
      "r = Inl e"
  | (stop) c where "current_score (h (ref me)) + sumList ms < w" "fst (rollDie dice) \<noteq> 1"
      "strategy_getDecision h me (current_score (h (ref opp))) (ms @ [fst (rollDie dice)]) coins
         = Inr (False, c)"
      "r = Inr (ms @ [fst (rollDie dice)], stl dice, c)"
  | (continue) c where "current_score (h (ref me)) + sumList ms < w" "fst (rollDie dice) \<noteq> 1"
      "strategy_getDecision h me (current_score (h (ref opp))) (ms @ [fst (rollDie dice)]) coins
         = Inr (True, c)"
      "r = turn_loop w h me opp (ms @ [fst (rollDie dice)]) (stl dice) c"
proof (cases "current_score (h (ref me)) + sumList ms < w")
  case False
  with assms exit show ?thesis
    by (simp add: turn_loop_unfold [of w h me opp ms])
next
  case lt: True
  show ?thesis
  proof (cases "fst (rollDie dice) = 1")
    case True
    with lt assms bust show ?thesis
      by (simp add: turn_loop_unfold [of w h me opp ms])
  next
    case nb: False
    show ?thesis
    proof (cases "strategy_getDecision h me (current_score (h (ref opp)))
                    (ms @ [fst (rollDie dice)]) coins")
      case (Inl e)
      with lt nb assms raise show ?thesis
        by (simp add: turn_loop_unfold [of w h me opp ms])
    next
      case (Inr p)
      obtain dec c where p: "p = (dec, c)" by (cases p)
      show ?thesis
      proof (cases dec)
        case True
        with Inr p lt nb assms continue [of c] show ?thesis
          by (simp add: turn_loop_unfold [of w h me opp ms])
      next
        case False
        with Inr p lt nb assms stop [of c] show ?thesis
          by (simp add: turn_loop_unfold [of w h me opp ms])
      qed
    qed
  qed
qed

lemma turn_loop_bound:
  fixes h :: store and me opp :: strategy
  assumes "turn_loop w h me opp ms dice coins = Inr (ms', dice', coins')"
    and "current_score (h (ref me)) \<le> w + 5"
    and "current_score (h (ref me)) + sumList ms \<le> w + 5"
  shows "current_score (h (ref me)) + sumList ms' \<le> w + 5"
  using assms
proof (induction ms dice coins rule: turn_loop_induct [where w = w and h = h and me = me and opp = opp])
  case (step ms dice coins)
  note r = rollDie_bounds [of dice]
  from step.prems(1) show ?case
  proof (cases rule: turn_loop_cases)
    case exit
    with step.prems show ?thesis by simp
  next
    case bust
    with step.prems show ?thesis by simp
  next
    case (raise e)
    then show ?thesis by simp
  next
    case (stop c)
    with r show ?thesis by simp
  next
    case (continue c)
    with r step.prems(2) step.IH [of c] show ?thesis by simp
  qed
qed

lemma turn_loop_nonneg:
  fixes h :: store and me opp :: strategy
  assumes "turn_loop w h me opp ms dice coins = Inr (ms', dice', coins')"
    and "0 \<le> sumList ms"
  shows "0 \<le> sumList ms'"
  using assms
proof (induction ms dice coins rule: turn_loop_induct [where w = w and h = h and me = me and opp = opp])
  case (step ms dice coins)
  note r = rollDie_bounds [of dice]
  from step.prems(1) show ?case
  proof (cases rule: turn_loop_cases)
    case exit
    with step.prems show ?thesis by simp
  next
    case bust
    then show ?thesis by simp
  next
    case (raise e)
    then show ?thesis by simp
  next
    case (stop c)
    with r step.prems(2) show ?thesis by simp
  next
    case (continue c)
    with r step.prems(2) step.IH [of c] show ?thesis by simp
  qed
qed

lemma no_bust_stl:
  assumes "\<forall>i. fst (rollDie (sdrop i dice)) \<noteq> 1"
  shows "\<forall>i. fst (rollDie (sdrop i (stl dice))) \<noteq> 1"
proof
  fix i
  have "sdrop i (stl dice) = sdrop (Suc i) dice" by simp
  with assms show "fst (rollDie (sdrop i (stl dice))) \<noteq> 1" by metis
qed

lemma no_bust_hd:
  assumes "\<forall>i. fst (rollDie (sdrop i dice)) \<noteq> 1"
  shows "fst (rollDie dice) \<noteq> 1"
  using assms sdrop.simps(1) by metis

lemma turn_loop_progress:
  fixes h :: store and me opp :: strategy
  assumes "turn_loop w h me opp ms dice coins = Inr (ms', dice', coins')"
    and "\<forall>i. fst (rollDie (sdrop i dice)) \<noteq> 1"
  shows "(\<forall>i. fst (rollDie (sdrop i dice')) \<noteq> 1) \<and> sumList ms \<le> sumList ms' \<and>
         (current_score (h (ref me)) + sumList ms < w \<longrightarrow> sumList ms + 2 \<le> sumList ms')"
  using assms
proof (induction ms dice coins rule: turn_loop_induct [where w = w and h = h and me = me and opp = opp])
  case (step ms dice coins)
  note r = rollDie_bounds [of dice]
  note nb = no_bust_hd [OF step.prems(2)] no_bust_stl [OF step.prems(2)]
  from step.prems(1) show ?case
  proof (cases rule: turn_loop_cases)
    case exit
    with step.prems show ?thesis by simp
  next
    case bust
    with nb show ?thesis by simp
  next
    case (raise e)
    then show ?thesis by simp
  next
    case (stop c)
    with r nb show ?thesis by simp
  next
    case (continue c)
    with r nb step.IH [of c] show ?thesis by simp
  qed
qed

lemma current_score_bank:
  "current_score (bank h me ms r) =
     (if r = ref me then current_score (h r) + sumList ms else current_score (h r))"
  by (simp add: bank_def)

lemma bank_Nil: "bank h me [] = h"
  by (simp add: bank_def)

lemma game_loop_Suc_cases [consumes 1, case_names raise1 win1 raise2 win2 again]:
  assumes "game_loop (Suc fuel) s1 s2 w h dice coins = r"
  obtains
    (raise1) e where "turn_loop w h s1 s2 [] dice coins = Inl e" "r = Some (Inl e)"
  | (win1) ms d c where "turn_loop w h s1 s2 [] dice coins = Inr (ms, d, c)"
      "w \<le> current_score (bank h s1 ms (ref s1))"
      "r = Some (Inr (bank h s1 ms, d, c))"
  | (raise2) ms d c e where "turn_loop w h s1 s2 [] dice coins = Inr (ms, d, c)"
      "\<not> w \<le> current_score (bank h s1 ms (ref s1))"
      "turn_loop w (bank h s1 ms) s2 s1 [] d c = Inl e"
      "r = Some (Inl e)"
  | (win2) ms d c ms2 d2 c2 where "turn_loop w h s1 s2 [] dice coins = Inr (ms, d, c)"
      "\<not> w \<le> current_score (bank h s1 ms (ref s1))"
      "turn_loop w (bank h s1 ms) s2 s1 [] d c = Inr (ms2, d2, c2)"
      "w \<le> current_score (bank (bank h s1 ms) s2 ms2 (ref s2))"
      "r = Some (Inr (bank (bank h s1 ms) s2 ms2, d2, c2))"
  | (again) ms d c ms2 d2 c2 where "turn_loop w h s1 s2 [] dice coins = Inr (ms, d, c)"
      "\<not> w \<le> current_score (bank h s1 ms (ref s1))"
      "turn_loop w (bank h s1 ms) s2 s1 [] d c = Inr (ms2, d2, c2)"
      "\<not> w \<le> current_score (bank (bank h s1 ms) s2 ms2 (ref s2))"
      "r = game_loop fuel s1 s2 w (bank (bank h s1 ms) s2 ms2) d2 c2"
proof (cases "turn_loop w h s1 s2 [] dice coins")
  case (Inl e)
  with assms raise1 show ?thesis by (simp add: finish_turn_def)
next
  case t1: (Inr p)
  obtain ms d c where p: "p = (ms, d, c)" by (cases p)
  show ?thesis
  proof (cases "w \<le> current_score (bank h s1 ms (ref s1))")
    case True
    with assms t1 p win1 [of ms d c] show ?thesis by (simp add: finish_turn_def)
  next
    case nw1: False
    show ?thesis
    proof (cases "turn_loop w (bank h s1 ms) s2 s1 [] d c")
      case (Inl e)
      with assms t1 p nw1 raise2 [of ms d c e] show ?thesis by (simp add: finish_turn_def)
    next
      case t2: (Inr q)
      obtain ms2 d2 c2 where q: "q = (ms2, d2, c2)" by (cases q)
      show ?thesis
      proof (cases "w \<le> current_score (bank (bank h s1 ms) s2 ms2 (ref s2))")
        case True
        with assms t1 p nw1 t2 q win2 [of ms d c ms2 d2 c2] show ?thesis
          by (simp add: finish_turn_def)
      next
        case False
        with assms t1 p nw1 t2 q again [of ms d c ms2 d2 c2] show ?thesis
          by (simp add: finish_turn_def)
      qed
    qed
  qed
qed

lemma game_loop_winner:
  assumes "game_loop fuel s1 s2 w h dice coins = Some (Inr (h', dice', coins'))"
  shows "w \<le> current_score (h' (ref s1)) \<or> w \<le> current_score (h' (ref s2))"
  using assms
proof (induction fuel arbitrary: h dice coins)
  case 0
  then show ?case by simp
next
  case (Suc fuel)
  from Suc.prems show ?case
  proof (cases rule: game_loop_Suc_cases)
    case (raise1 e)
    then show ?thesis by simp
  next
    case (win1 ms d c)
    then show ?thesis by auto
  next
    case (raise2 ms d c e)
    then show ?thesis by simp
  next
    case (win2 ms d c ms2 d2 c2)
    then show ?thesis by auto
  next
    case (again ms d c ms2 d2 c2)
    then show ?thesis using Suc.IH by simp
  qed
qed

lemma game_loop_bound:
  assumes "game_loop fuel s1 s2 w h dice coins = Some (Inr (h', dice', coins'))"
    and "current_score (h (ref s1)) < w" and "current_score (h (ref s2)) < w"
  shows "current_score (h' (ref s1)) \<le> w + 5 \<and> current_score (h' (ref s2)) \<le> w + 5"
  using assms
proof (induction fuel arbitrary: h dice coins)
  case 0
  then show ?case by simp
next
  case (Suc fuel)
  from Suc.prems(1) show ?case
  proof (cases rule: game_loop_Suc_cases)
    case (raise1 e)
    then show ?thesis by simp
  next
    case (win1 ms d c)
    from turn_loop_bound [OF win1(1)] Suc.prems(2)
    have "current_score (h (ref s1)) + sumList ms \<le> w + 5" by simp
    with win1 Suc.prems show ?thesis by (auto simp: current_score_bank)
  next
    case (raise2 ms d c e)
    then show ?thesis by simp
  next
    case (win2 ms d c ms2 d2 c2)
    from turn_loop_bound [OF win2(1)] Suc.prems(2)
    have b1: "current_score (h (ref s1)) + sumList ms \<le> w + 5" by simp
    have lt: "current_score (bank h s1 ms (ref s2)) < w"
      using win2(2) Suc.prems(3) by (auto simp: current_score_bank)
    from turn_loop_bound [OF win2(3)] lt
    have "current_score (bank h s1 ms (ref s2)) + sumList ms2 \<le> w + 5" by simp
    with win2 b1 Suc.prems show ?thesis by (auto simp: current_score_bank)
  next
    case (again ms d c ms2 d2 c2)
    have "current_score (bank (bank h s1 ms) s2 ms2 (ref s1)) < w"
      using again(2,4) by (auto simp: current_score_bank)
    moreover have "current_score (bank (bank h s1 ms) s2 ms2 (ref s2)) < w"
      using again(4) by simp
    ultimately show ?thesis
      using Suc.IH [of "bank (bank h s1 ms) s2 ms2" d2 c2] again(5) by simp
  qed
qed

lemma late_bust_stl:
  assumes "\<forall>i\<ge>N. fst (rollDie (sdrop i dice)) \<noteq> 1"
  shows "\<forall>i\<ge>N - 1. fst (rollDie (sdrop i (stl dice))) \<noteq> 1"
proof (intro allI impI)
  fix i
  assume "N - 1 \<le> i"
  then have "N \<le> Suc i" by simp
  with assms have "fst (rollDie (sdrop (Suc i) dice)) \<noteq> 1" by blast
  then show "fst (rollDie (sdrop i (stl dice))) \<noteq> 1" by simp
qed

lemma late_bust_weaken:
  assumes "\<forall>i\<ge>N. fst (rollDie (sdrop i dice)) \<noteq> 1" and "N \<le> M"
  shows "\<forall>i\<ge>M. fst (rollDie (sdrop i dice)) \<noteq> 1"
  using assms by auto

lemma turn_loop_consumes:
  fixes h :: store and me opp :: strategy
  assumes "turn_loop w h me opp ms dice coins = Inr (ms', dice', coins')"
    and "\<forall>i\<ge>N. fst (rollDie (sdrop i dice)) \<noteq> 1"
  shows "(\<forall>i\<ge>N. fst (rollDie (sdrop i dice')) \<noteq> 1) \<and>
         (current_score (h (ref me)) + sumList ms < w \<longrightarrow>
            (\<forall>i\<ge>N - 1. fst (rollDie (sdrop i dice')) \<noteq> 1))"
  using assms
proof (induction ms dice coins arbitrary: N
    rule: turn_loop_induct [where w = w and h = h and me = me and opp = opp])
  case (step ms dice coins)
  note tl = late_bust_stl [OF step.prems(2)]
  note tl' = late_bust_weaken [OF tl, of N]
  from step.prems(1) show ?case
  proof (cases rule: turn_loop_cases)
    case exit
    with step.prems show ?thesis by simp
  next
    case bust
    with tl tl' show ?thesis by simp
  next
    case (raise e)
    then show ?thesis by simp
  next
    case (stop c)
    with tl tl' show ?thesis by simp
  next
    case (continue c)
    from step.IH [OF continue(1,2,3) _ tl] continue(4) step.prems(1)
    have a: "\<forall>i\<ge>N - 1. fst (rollDie (sdrop i dice')) \<noteq> 1" by simp
    from late_bust_weaken [OF a, of N] a show ?thesis by simp
  qed
qed

lemma game_loop_returns:
  assumes "\<forall>i\<ge>N. fst (rollDie (sdrop i dice)) \<noteq> 1"
    and "current_score (h (ref s1)) < w"
    and "w - current_score (h (ref s1)) \<le> 2 * (int fuel - int N)"
  shows "game_loop fuel s1 s2 w h dice coins \<noteq> None"
  using assms
proof (induction fuel arbitrary: N h dice coins)
  case 0
  then show ?case by simp
next
  case (Suc fuel)
  obtain r where r: "game_loop (Suc fuel) s1 s2 w h dice coins = r" by simp
  from r have "r \<noteq> None"
  proof (cases rule: game_loop_Suc_cases)
    case (raise1 e)
    then show ?thesis by simp
  next
    case (win1 ms d c)
    then show ?thesis by simp
  next
    case (raise2 ms d c e)
    then show ?thesis by simp
  next
    case (win2 ms d c ms2 d2 c2)
    then show ?thesis by simp
  next
    case (again ms d c ms2 d2 c2)
    let ?h2 = "bank (bank h s1 ms) s2 ms2"
    from turn_loop_consumes [OF again(1) Suc.prems(1)] Suc.prems(2)
    have d: "\<forall>i\<ge>N - 1. fst (rollDie (sdrop i d)) \<noteq> 1" by simp
    from turn_loop_consumes [OF again(3) d]
    have d2: "\<forall>i\<ge>N - 1. fst (rollDie (sdrop i d2)) \<noteq> 1" by simp
    have n1: "0 \<le> sumList ms" using turn_loop_nonneg [OF again(1)] by simp
    have n2: "0 \<le> sumList ms2" using turn_loop_nonneg [OF again(3)] by simp
    have lt: "current_score (?h2 (ref s1)) < w"
      using again(2,4) by (auto simp: current_score_bank)
    have ge: "current_score (h (ref s1)) + sumList ms \<le> current_score (?h2 (ref s1))"
      using n2 by (auto simp: current_score_bank)
    have fu: "w - current_score (?h2 (ref s1)) \<le> 2 * (int fuel - int (N - 1))"
    proof (cases "N = 0")
      case True
      with Suc.prems(1) have "\<forall>i. fst (rollDie (sdrop i dice)) \<noteq> 1" by simp
      from turn_loop_progress [OF again(1) this] Suc.prems(2)
      have "2 \<le> sumList ms" by simp
      with ge Suc.prems(3) True show ?thesis by simp
    next
      case False
      then have "int (N - 1) = int N - 1" by simp
      with ge n1 Suc.prems(3) show ?thesis by simp
    qed
    from Suc.IH [of "N - 1" d2 ?h2 c2] d2 lt fu again(5) show ?thesis by simp
  qed
  with r show ?case by simp
qed

lemma finish_turn_bust:
  assumes "current_score (h (ref me)) + sumList current_moves < w"
    and "fst (rollDie dice) = 1"
  shows "finish_turn w h me opp current_moves dice coins = Inr (h, stl dice, coins)"
  using assms
  by (simp add: finish_turn_def turn_loop_unfold [of w h me opp current_moves] bank_Nil)

lemma game_loop_all_busts:
  assumes "current_score (h (ref s1)) < w" and "current_score (h (ref s2)) < w"
  shows "game_loop fuel s1 s2 w h (sconst 0) coins = None"
proof (induction fuel)
  case 0
  show ?case by simp
next
  case (Suc fuel)
  have r: "fst (rollDie (sconst 0)) = 1"
    by (simp add: rollDie_def randint_def)
  have t1: "finish_turn w h s1 s2 [] (sconst 0) coins = Inr (h, sconst 0, coins)"
    using finish_turn_bust [of h s1 "[]" w "sconst 0" s2 coins] assms(1) r by simp
  have t2: "finish_turn w h s2 s1 [] (sconst 0) coins = Inr (h, sconst 0, coins)"
    using finish_turn_bust [of h s2 "[]" w "sconst 0" s1 coins] assms(2) r by simp
  have n: "\<not> w \<le> current_score (h (ref s1))" "\<not> w \<le> current_score (h (ref s2))"
    using assms by simp_all
  show ?case
    unfolding game_loop.simps t1 sum.case prod.case if_not_P [OF n(1)] t2 if_not_P [OF n(2)]
    by (rule Suc.IH)
qed

lemma turn_loop_agree:
  fixes h :: store and me me' opp opp' :: strategy
  assumes agree: "\<And>wsc csc osc rolls coins. rolls \<noteq> [] \<Longrightarrow>
      getDecision (strategy_decision me') wsc csc osc rolls coins
        = getDecision (strategy_decision me) wsc csc osc rolls coins"
    and refs: "ref me' = ref me" "ref opp' = ref opp"
  shows "turn_loop w h me' opp' ms dice coins = turn_loop w h me opp ms dice coins"
proof (induction ms dice coins rule: turn_loop_induct [where w = w and h = h and me = me and opp = opp])
  case (step ms dice coins)
  have d: "strategy_getDecision h me' x (ms @ [r]) coins = strategy_getDecision h me x (ms @ [r]) coins"
    for x r
    using agree [of "ms @ [r]"] refs by (simp add: strategy_getDecision_def)
  show ?case
    apply (subst turn_loop_unfold [of w h me' opp' ms dice coins])
    apply (subst turn_loop_unfold [of w h me opp ms dice coins])
    using step.IH d refs
    apply (auto split: sum.splits)
    done
qed

lemma game_loop_agree:
  assumes a1: "\<And>wsc csc osc rolls coins. rolls \<noteq> [] \<Longrightarrow>
      getDecision (strategy_decision s1') wsc csc osc rolls coins
        = getDecision (strategy_decision s1) wsc csc osc rolls coins"
    and a2: "\<And>wsc csc osc rolls coins. rolls \<noteq> [] \<Longrightarrow>
      getDecision (strategy_decision s2') wsc csc osc rolls coins
        = getDecision (strategy_decision s2) wsc csc osc rolls coins"
    and refs: "ref s1' = ref s1" "ref s2' = ref s2"
  shows "game_loop fuel s1' s2' w h dice coins = game_loop fuel s1 s2 w h dice coins"
proof (induction fuel arbitrary: h dice coins)
  case 0
  show ?case by simp
next
  case (Suc fuel)
  have b1: "bank h s1' ms = bank h s1 ms" and b2: "bank h s2' ms = bank h s2 ms" for h ms
    using refs by (simp_all add: bank_def)
  have l1: "turn_loop w h s1' s2' [] d c = turn_loop w h s1 s2 [] d c" for h d c
    using turn_loop_agree [of s1' s1 s2' s2 w h "[]" d c] a1 refs by simp
  have l2: "turn_loop w h s2' s1' [] d c = turn_loop w h s2 s1 [] d c" for h d c
    using turn_loop_agree [of s2' s2 s1' s1 w h "[]" d c] a2 refs by simp
  show ?case
    unfolding game_loop.simps finish_turn_def l1 l2 b1 b2 refs Suc.IH ..
qed

lemma runSimulation_cases [consumes 1, case_names result]:
  assumes "runSimulation fuel s1 s2 w h dice coins = Some (Inr (res, h', dice', coins'))"
  obtains "game_loop fuel s1 s2 w (reset_scores s1 s2 w h) dice coins = Some (Inr (h', dice', coins'))"
    "res = game_result s1 s2 w h'"
  using assms by (auto simp: runSimulation_def split: option.splits sum.splits)

text \<open>Unfolding a run of the engine on concrete strategies and streams.\<close>

lemmas run_simps = runSimulation_def game_loop.simps finish_turn_def turn_loop.simps
  rollDie_def randint_def strategy_getDecision_def getDecision_def reset_scores_def bank_def
  game_result_def

lemmas strategy_simps = untilReach5_def untilRoll6_def alwaysTrueStrategy_def
  alwaysFalseStrategy_def untilValue_def untilRoll_def alwaysTrue_def alwaysFalse_def

section \<open>Properties of the batch runner and of the aggregator\<close>

lemma play_games_length:
  assumes "play_games n fuel s1 s2 w h dice coins = Some (Inr (results_list, h', dice', coins'))"
  shows "length results_list = n"
  using assms
proof (induction n arbitrary: h dice coins results_list)
  case 0
  then show ?case by simp
next
  case (Suc n)
  then show ?case
    by (auto split: option.splits sum.splits)
qed

lemma tally_acc:
  "tally name1 rs (wins1, wins2, margins1, margins2) =
     (wins1 + int (length (filter (\<lambda>r. fst r = name1) rs)),
      wins2 + int (length (filter (\<lambda>r. fst r \<noteq> name1) rs)),
      margins1 @ map (\<lambda>r. if fst r = name1 then snd r else - snd r) rs,
      margins2 @ map (\<lambda>r. if fst r = name1 then - snd r else snd r) rs)"
  by (induction rs arbitrary: wins1 wins2 margins1 margins2) simp_all

lemma with_rate_eq:
  "with_rate b = (if wins b + losses b = 0 then Inl ZeroDivisionError else Inr (rated b))"
  by (simp add: with_rate_def true_div_def)

lemma add_rates_eq:
  "add_rates a =
     (if wins (overall (win_loss_rate a)) + losses (overall (win_loss_rate a)) = 0
         \<or> wins (first (win_loss_rate a)) + losses (first (win_loss_rate a)) = 0
         \<or> wins (second (win_loss_rate a)) + losses (second (win_loss_rate a)) = 0
      then Inl ZeroDivisionError
      else Inr (a\<lparr>win_loss_rate :=
                  \<lparr>overall = rated (overall (win_loss_rate a)),
                   first = rated (first (win_loss_rate a)),
                   second = rated (second (win_loss_rate a))\<rparr>\<rparr>))"
  by (simp add: add_rates_def with_rate_eq)

lemma add_winrates_eq:
  "add_winrates agg =
     (if \<exists>(strategy_name, a) \<in> set agg.
           wins (overall (win_loss_rate a)) + losses (overall (win_loss_rate a)) = 0
         \<or> wins (first (win_loss_rate a)) + losses (first (win_loss_rate a)) = 0
         \<or> wins (second (win_loss_rate a)) + losses (second (win_loss_rate a)) = 0
      then Inl ZeroDivisionError
      else Inr (map (\<lambda>(strategy_name, a).
                  (strategy_name,
                   a\<lparr>win_loss_rate :=
                       \<lparr>overall = rated (overall (win_loss_rate a)),
                        first = rated (first (win_loss_rate a)),
                        second = rated (second (win_loss_rate a))\<rparr>\<rparr>)) agg))"
proof (induction agg)
  case Nil
  show ?case by simp
next
  case (Cons p agg)
  obtain k a where p: "p = (k, a)" by (cases p)
  show ?case
    unfolding p add_winrates.simps Cons.IH add_rates_eq
    by (simp split: if_splits)
qed

lemma merge_strategy_2_other:
  assumes "strategy_2 (game_settings cr) \<noteq> k"
  shows "map_of (merge_strategy_2 agg cr) k = map_of agg k"
  using assms by (simp add: merge_strategy_2_def update_conv' split: option.splits)

lemma merge_strategy_1_index_0:
  "merge_strategy_1 agg (cr\<lparr>win_count := (fst (win_count cr), wins2),
                           average_margins := (fst (average_margins cr), average2)\<rparr>)
     = merge_strategy_1 agg cr"
  by (simp add: merge_strategy_1_def cong: option.case_cong)

lemma merge_strategy_2_index_0:
  "merge_strategy_2 agg (cr\<lparr>win_count := (fst (win_count cr), wins2),
                           average_margins := (fst (average_margins cr), average2)\<rparr>)
     = merge_strategy_2 agg cr"
  by (simp add: merge_strategy_2_def cong: option.case_cong)

section \<open>The claims about the game engine\<close>

text \<open>
  C5. In a turn in which a 1 is rolled the banked score of the active strategy does not
  change: whatever sequence is pending when the 1 comes up, the rest of the turn leaves
  the whole store as it was (zero points are banked), consults no decision function and
  consumes that one roll.
\<close>

theorem bust_leaves_score_unchanged:
  assumes "current_score (h (ref me)) + sumList current_moves < w"
    and "fst (rollDie dice) = 1"
  shows "finish_turn w h me opp current_moves dice coins = Inr (h, stl dice, coins)"
  using assms by (rule finish_turn_bust)

theorem bust_leaves_score_unchanged_witness:
  "current_score ((\<lambda>_. \<lparr>winning_score = 100, current_score = 40\<rparr>) (ref alwaysTrueStrategy))
     + sumList [6, 5, 4] < 100
   \<and> fst (rollDie (sconst 0)) = 1
   \<and> finish_turn 100 (\<lambda>_. \<lparr>winning_score = 100, current_score = 40\<rparr>)
        alwaysTrueStrategy alwaysFalseStrategy [6, 5, 4] (sconst 0) (sconst 0)
      = Inr (\<lambda>_. \<lparr>winning_score = 100, current_score = 40\<rparr>, sconst 0, sconst 0)"
  using bust_leaves_score_unchanged [of "\<lambda>_. \<lparr>winning_score = 100, current_score = 40\<rparr>"
      alwaysTrueStrategy "[6, 5, 4]" 100 "sconst 0" alwaysFalseStrategy "sconst 0"]
  by (simp add: rollDie_def randint_def)

text \<open>
  C4. When \<open>runSimulation\<close> returns, the winner is a strategy whose banked score has
  reached the winning score and the margin is exactly 100 minus the final banked score
  of the other strategy, whatever the winning score is.
\<close>

theorem margin_is_100_minus_loser:
  assumes "runSimulation fuel s1 s2 w h dice coins
             = Some (Inr ((winner, margin), h', dice', coins'))"
  shows "(winner = name s1 \<and> w \<le> current_score (h' (ref s1))
            \<and> margin = 100 - current_score (h' (ref s2)))
       \<or> (winner = name s2 \<and> current_score (h' (ref s1)) < w
            \<and> w \<le> current_score (h' (ref s2))
            \<and> margin = 100 - current_score (h' (ref s1)))"
  using assms
proof (cases rule: runSimulation_cases)
  case result
  from game_loop_winner [OF result(1)] result(2) show ?thesis
    by (auto simp: game_result_def split: if_splits)
qed

theorem margin_is_100_minus_loser_witness:
  "runSimulation (Suc (Suc 0)) alwaysTrueStrategy alwaysFalseStrategy 10
       (\<lambda>_. \<lparr>winning_score = 0, current_score = 0\<rparr>)
       (2 ## 0 ## 4 ## 5 ## 5 ## sconst 0) (sconst 0)
     = Some (Inr ((''alwaysTrue'', 95),
          (\<lambda>_. \<lparr>winning_score = 0, current_score = 0\<rparr>)
            (17 := \<lparr>winning_score = 10, current_score = 5\<rparr>,
             16 := \<lparr>winning_score = 10, current_score = 12\<rparr>),
          sconst 0, sconst 0))
   \<and> ''alwaysTrue'' = name alwaysTrueStrategy
   \<and> (95 :: int) = 100 - 5"
proof -
  have run: "runSimulation (Suc (Suc 0)) alwaysTrueStrategy alwaysFalseStrategy 10
       (\<lambda>_. \<lparr>winning_score = 0, current_score = 0\<rparr>)
       (2 ## 0 ## 4 ## 5 ## 5 ## sconst 0) (sconst 0)
     = Some (Inr ((''alwaysTrue'', 95),
          (\<lambda>_. \<lparr>winning_score = 0, current_score = 0\<rparr>)
            (17 := \<lparr>winning_score = 10, current_score = 5\<rparr>,
             16 := \<lparr>winning_score = 10, current_score = 12\<rparr>),
          sconst 0, sconst 0))"
    by (simp add: run_simps strategy_simps)
  from margin_is_100_minus_loser [OF run] run show ?thesis
    by (simp add: alwaysTrueStrategy_def)
qed

text \<open>
  C10. For a winning score of at least 1, when \<open>runSimulation\<close> returns, the winner's
  final banked score is at least the winning score and at most the winning score plus 5.
\<close>

theorem winner_overshoots_by_at_most_5:
  assumes "1 \<le> w"
    and "runSimulation fuel s1 s2 w h dice coins
           = Some (Inr ((winner, margin), h', dice', coins'))"
  shows "(winner = name s1 \<and> w \<le> current_score (h' (ref s1))
            \<and> current_score (h' (ref s1)) \<le> w + 5)
       \<or> (winner = name s2 \<and> w \<le> current_score (h' (ref s2))
            \<and> current_score (h' (ref s2)) \<le> w + 5)"
  using assms(2)
proof (cases rule: runSimulation_cases)
  case result
  have "current_score (reset_scores s1 s2 w h (ref s1)) < w"
    and "current_score (reset_scores s1 s2 w h (ref s2)) < w"
    using assms(1) by (simp_all add: reset_scores_def)
  from game_loop_bound [OF result(1) this] game_loop_winner [OF result(1)] result(2)
  show ?thesis
    by (auto simp: game_result_def split: if_splits)
qed

theorem winner_overshoots_by_at_most_5_witness:
  "(1 :: int) \<le> 3
   \<and> runSimulation (Suc 0) alwaysTrueStrategy alwaysFalseStrategy 3
       (\<lambda>_. \<lparr>winning_score = 0, current_score = 0\<rparr>) (1 ## 5 ## sconst 0) (sconst 0)
     = Some (Inr ((''alwaysTrue'', 100),
          (\<lambda>_. \<lparr>winning_score = 0, current_score = 0\<rparr>)
            (17 := \<lparr>winning_score = 3, current_score = 0\<rparr>,
             16 := \<lparr>winning_score = 3, current_score = 8\<rparr>),
          sconst 0, sconst 0))
   \<and> ''alwaysTrue'' = name alwaysTrueStrategy
   \<and> (3 :: int) \<le> 8 \<and> (8 :: int) \<le> 3 + 5"
proof -
  have run: "runSimulation (Suc 0) alwaysTrueStrategy alwaysFalseStrategy 3
       (\<lambda>_. \<lparr>winning_score = 0, current_score = 0\<rparr>) (1 ## 5 ## sconst 0) (sconst 0)
     = Some (Inr ((''alwaysTrue'', 100),
          (\<lambda>_. \<lparr>winning_score = 0, current_score = 0\<rparr>)
            (17 := \<lparr>winning_score = 3, current_score = 0\<rparr>,
             16 := \<lparr>winning_score = 3, current_score = 8\<rparr>),
          sconst 0, sconst 0))"
    by (simp add: run_simps strategy_simps)
  have w: "(1 :: int) \<le> 3" by simp
  from winner_overshoots_by_at_most_5 [OF w run] run show ?thesis
    by (simp add: alwaysTrueStrategy_def)
qed

text \<open>
  C3. \<open>untilValue\<close> returns \<open>True\<close>, the value on which the engine keeps rolling, exactly
  when the sum of the roll sequence has reached the threshold, and \<open>False\<close> while it is
  below. At the threshold 5 with the roll sequence \<open>[2]\<close> it returns \<open>False\<close>, the value
  on which the engine leaves the turn loop, so the turn of \<open>untilReach5\<close> ends and banks
  after this single roll.
\<close>

theorem untilValue_stops_below_threshold:
  "untilValue wsc csc osc current_rolls [PInt threshold] coins
     = Inr (threshold \<le> sumList current_rolls, coins)
   \<and> untilValue 100 0 0 [2] [PInt 5] coins = Inr (False, coins)
   \<and> turn_loop 100 (\<lambda>_. \<lparr>winning_score = 100, current_score = 0\<rparr>)
         untilReach5 alwaysTrueStrategy [] (1 ## dice) coins
       = Inr ([2], dice, coins)"
  by (simp add: turn_loop.simps rollDie_def randint_def strategy_getDecision_def
      getDecision_def untilReach5_def untilValue_def)

text \<open>
  C8 as stated fails: on a die that always shows 1 every turn busts, no score ever
  changes, and \<open>runSimulation\<close> has not returned after any number of rounds.
\<close>

theorem runSimulation_all_busts_never_returns:
  "\<forall>fuel. runSimulation fuel alwaysTrueStrategy alwaysFalseStrategy 100
      (\<lambda>_. \<lparr>winning_score = 0, current_score = 0\<rparr>) (sconst 0) (sconst 0) = None"
proof
  fix fuel
  have "game_loop fuel alwaysTrueStrategy alwaysFalseStrategy 100
          (reset_scores alwaysTrueStrategy alwaysFalseStrategy 100
             (\<lambda>_. \<lparr>winning_score = 0, current_score = 0\<rparr>)) (sconst 0) (sconst 0) = None"
    by (rule game_loop_all_busts) (simp_all add: reset_scores_def)
  then show "runSimulation fuel alwaysTrueStrategy alwaysFalseStrategy 100
      (\<lambda>_. \<lparr>winning_score = 0, current_score = 0\<rparr>) (sconst 0) (sconst 0) = None"
    by (simp add: runSimulation_def)
qed

text \<open>
  C8, amended. Every turn loop terminates on every stream (\<open>turn_loop\<close> is a total
  function: each roll that does not end the turn adds at least 2 to the pending sum).
  The game loop terminates whenever the die shows 1 only finitely often: for a positive
  winning score, if no roll from the \<open>N\<close>-th on is a 1, \<open>runSimulation\<close> returns (or
  raises) within \<open>N + winning_score\<close> rounds, for any two strategies and any decisions.
\<close>

theorem runSimulation_returns_when_busts_stop:
  assumes "0 < w" and "\<forall>i\<ge>N. fst (rollDie (sdrop i dice)) \<noteq> 1"
  shows "runSimulation (N + nat w) s1 s2 w h dice coins \<noteq> None"
proof -
  have "game_loop (N + nat w) s1 s2 w (reset_scores s1 s2 w h) dice coins \<noteq> None"
    using assms by (intro game_loop_returns [where N = N]) (simp_all add: reset_scores_def)
  then show ?thesis
    by (auto simp: runSimulation_def split: option.splits sum.splits)
qed

theorem runSimulation_returns_when_busts_stop_witness:
  "(0 :: int) < 3
   \<and> runSimulation (1 + nat 3) alwaysTrueStrategy alwaysFalseStrategy 3
         (\<lambda>_. \<lparr>winning_score = 0, current_score = 0\<rparr>) (0 ## sconst 1) (sconst 0) \<noteq> None"
proof -
  have w: "(0 :: int) < 3" by simp
  have d: "\<forall>i\<ge>1. fst (rollDie (sdrop i (0 ## sconst 1))) \<noteq> 1"
  proof (intro allI impI)
    fix i :: nat
    assume "1 \<le> i"
    then obtain j where "i = Suc j" by (cases i) simp_all
    then show "fst (rollDie (sdrop i (0 ## sconst 1))) \<noteq> 1"
      by (simp add: rollDie_def randint_def)
  qed
  from runSimulation_returns_when_busts_stop [OF w d] w show ?thesis by blast
qed

text \<open>
  C9. The engine asks for a decision only with a non-empty roll sequence: the value (or
  exception) of a decision function on the empty sequence has no influence on
  \<open>runSimulation\<close>. Two decision functions that agree on every non-empty sequence give
  the same run, so the \<open>IndexError\<close> of \<open>untilRoll\<close> on \<open>current_rolls[-1]\<close> cannot be
  reached from the engine.
\<close>

theorem decision_never_sees_empty_rolls:
  assumes "\<forall>wsc csc osc rolls cps coins. rolls \<noteq> [] \<longrightarrow>
             f1' wsc csc osc rolls cps coins = f1 wsc csc osc rolls cps coins"
    and "\<forall>wsc csc osc rolls cps coins. rolls \<noteq> [] \<longrightarrow>
             f2' wsc csc osc rolls cps coins = f2 wsc csc osc rolls cps coins"
  shows "runSimulation fuel
           \<lparr>name = n1, ref = r1,
            strategy_decision = \<lparr>decision_function = f1', constant_parameters = p1\<rparr>\<rparr>
           \<lparr>name = n2, ref = r2,
            strategy_decision = \<lparr>decision_function = f2', constant_parameters = p2\<rparr>\<rparr>
           w h dice coins
       = runSimulation fuel
           \<lparr>name = n1, ref = r1,
            strategy_decision = \<lparr>decision_function = f1, constant_parameters = p1\<rparr>\<rparr>
           \<lparr>name = n2, ref = r2,
            strategy_decision = \<lparr>decision_function = f2, constant_parameters = p2\<rparr>\<rparr>
           w h dice coins"
proof -
  let ?s1' = "\<lparr>name = n1, ref = r1,
            strategy_decision = \<lparr>decision_function = f1', constant_parameters = p1\<rparr>\<rparr>"
  let ?s2' = "\<lparr>name = n2, ref = r2,
            strategy_decision = \<lparr>decision_function = f2', constant_parameters = p2\<rparr>\<rparr>"
  let ?s1 = "\<lparr>name = n1, ref = r1,
            strategy_decision = \<lparr>decision_function = f1, constant_parameters = p1\<rparr>\<rparr>"
  let ?s2 = "\<lparr>name = n2, ref = r2,
            strategy_decision = \<lparr>decision_function = f2, constant_parameters = p2\<rparr>\<rparr>"
  have gl: "game_loop fuel ?s1' ?s2' w h0 dice coins = game_loop fuel ?s1 ?s2 w h0 dice coins"
    for h0
    using assms by (intro game_loop_agree) (simp_all add: getDecision_def)
  have rs: "reset_scores ?s1' ?s2' w h = reset_scores ?s1 ?s2 w h"
    by (simp add: reset_scores_def)
  have gr: "game_result ?s1' ?s2' w h' = game_result ?s1 ?s2 w h'" for h'
    by (simp add: game_result_def)
  show ?thesis
    unfolding runSimulation_def gl rs gr ..
qed

theorem decision_never_sees_empty_rolls_witness:
  "runSimulation (Suc (Suc 0))
         \<lparr>name = ''untilRoll6'', ref = 10,
          strategy_decision =
            \<lparr>decision_function = (\<lambda>wsc csc osc rolls cps coins.
                 if rolls = [] then Inr (True, coins)
                 else untilRoll wsc csc osc rolls cps coins),
             constant_parameters = [PList [6]]\<rparr>\<rparr>
         \<lparr>name = ''alwaysFalse'', ref = 17,
          strategy_decision = \<lparr>decision_function = alwaysFalse, constant_parameters = []\<rparr>\<rparr>
         12 (\<lambda>_. \<lparr>winning_score = 0, current_score = 0\<rparr>)
         (2 ## 5 ## 3 ## 4 ## sconst 0) (sconst 0)
     = runSimulation (Suc (Suc 0)) untilRoll6 alwaysFalseStrategy
         12 (\<lambda>_. \<lparr>winning_score = 0, current_score = 0\<rparr>)
         (2 ## 5 ## 3 ## 4 ## sconst 0) (sconst 0)
   \<and> runSimulation (Suc (Suc 0)) untilRoll6 alwaysFalseStrategy
         12 (\<lambda>_. \<lparr>winning_score = 0, current_score = 0\<rparr>)
         (2 ## 5 ## 3 ## 4 ## sconst 0) (sconst 0)
     = Some (Inr ((''untilRoll6'', 96),
          (\<lambda>_. \<lparr>winning_score = 0, current_score = 0\<rparr>)
            (17 := \<lparr>winning_score = 12, current_score = 4\<rparr>,
             10 := \<lparr>winning_score = 12, current_score = 14\<rparr>),
          sconst 0, sconst 0))"
proof -
  have a: "\<forall>wsc csc osc rolls cps coins. rolls \<noteq> [] \<longrightarrow>
      (if rolls = [] then Inr (True, coins) else untilRoll wsc csc osc rolls cps coins)
        = untilRoll wsc csc osc rolls cps coins"
    by simp
  have b: "\<forall>wsc csc osc rolls cps coins. rolls \<noteq> [] \<longrightarrow>
      alwaysFalse wsc csc osc rolls cps coins = alwaysFalse wsc csc osc rolls cps coins"
    by simp
  have run: "runSimulation (Suc (Suc 0)) untilRoll6 alwaysFalseStrategy
         12 (\<lambda>_. \<lparr>winning_score = 0, current_score = 0\<rparr>)
         (2 ## 5 ## 3 ## 4 ## sconst 0) (sconst 0)
     = Some (Inr ((''untilRoll6'', 96),
          (\<lambda>_. \<lparr>winning_score = 0, current_score = 0\<rparr>)
            (17 := \<lparr>winning_score = 12, current_score = 4\<rparr>,
             10 := \<lparr>winning_score = 12, current_score = 14\<rparr>),
          sconst 0, sconst 0))"
    by (simp add: run_simps strategy_simps)
  from decision_never_sees_empty_rolls [OF a b, of "Suc (Suc 0)" "''untilRoll6''" 10
      "[PList [6]]" "''alwaysFalse''" 17 "[]" 12 "\<lambda>_. \<lparr>winning_score = 0, current_score = 0\<rparr>"
      "2 ## 5 ## 3 ## 4 ## sconst 0" "sconst 0"]
    run
  show ?thesis
    by (simp only: untilRoll6_def alwaysFalseStrategy_def simp_thms)
qed

section \<open>The claims about the batch runner and the aggregator\<close>

text \<open>
  C6. In every batch that \<open>runSimulationBlock\<close> produces the two win counts add up to
  the number of games, both margin lists have one entry per game, and for each game
  one list holds the game's margin and the other its negation: the first list holds
  the margin exactly when the game's winner has the name of the first strategy.
\<close>

theorem batch_counts_and_margins:
  assumes "runSimulationBlock fuel s1 s2 w games h dice coins = Some (Inr (b, h', dice', coins'))"
  shows "fst (win_count b) + snd (win_count b) = games
       \<and> int (length (fst (win_margins b))) = games
       \<and> int (length (snd (win_margins b))) = games
       \<and> (\<exists>results_list.
             play_games (nat games) fuel s1 s2 w h dice coins
               = Some (Inr (results_list, h', dice', coins'))
           \<and> (\<forall>i < length results_list.
                 (fst (results_list ! i) = name s1
                    \<and> fst (win_margins b) ! i = snd (results_list ! i)
                    \<and> snd (win_margins b) ! i = - snd (results_list ! i))
               \<or> (fst (results_list ! i) \<noteq> name s1
                    \<and> snd (win_margins b) ! i = snd (results_list ! i)
                    \<and> fst (win_margins b) ! i = - snd (results_list ! i))))"
proof -
  from assms obtain rs where
    pg: "play_games (nat games) fuel s1 s2 w h dice coins = Some (Inr (rs, h', dice', coins'))"
    by (auto simp: runSimulationBlock_def split: option.splits sum.splits prod.splits)
  note len = play_games_length [OF pg]
  let ?m1 = "map (\<lambda>r. if fst r = name s1 then snd r else - snd r) rs"
  let ?m2 = "map (\<lambda>r. if fst r = name s1 then - snd r else snd r) rs"
  from assms pg have nz: "rs \<noteq> []"
    by (auto simp: runSimulationBlock_def tally_acc true_div_def split: if_splits)
  then have "0 < length rs" by simp
  with len have g: "int (length rs) = games" by linarith
  from assms pg have b: "win_count b = (int (length (filter (\<lambda>r. fst r = name s1) rs)),
                          int (length (filter (\<lambda>r. fst r \<noteq> name s1) rs)))"
      "win_margins b = (?m1, ?m2)"
    by (auto simp: runSimulationBlock_def tally_acc true_div_def split: if_splits)
  have "length (filter (\<lambda>r. fst r = name s1) rs) + length (filter (\<lambda>r. fst r \<noteq> name s1) rs)
          = length rs"
    using sum_length_filter_compl [of "\<lambda>r. fst r = name s1" rs] by simp
  with g have c: "fst (win_count b) + snd (win_count b) = games"
    unfolding b by simp
  have m: "int (length (fst (win_margins b))) = games" "int (length (snd (win_margins b))) = games"
    unfolding b using g by simp_all
  have "\<forall>i < length rs.
                 (fst (rs ! i) = name s1
                    \<and> fst (win_margins b) ! i = snd (rs ! i)
                    \<and> snd (win_margins b) ! i = - snd (rs ! i))
               \<or> (fst (rs ! i) \<noteq> name s1
                    \<and> snd (win_margins b) ! i = snd (rs ! i)
                    \<and> fst (win_margins b) ! i = - snd (rs ! i))"
    unfolding b by simp
  with pg c m show ?thesis by blast
qed

theorem batch_counts_and_margins_witness:
  "runSimulationBlock (Suc 0) alwaysFalseStrategy alwaysTrueStrategy 5 2
       (\<lambda>_. \<lparr>winning_score = 0, current_score = 0\<rparr>) (2 ## 5 ## 4 ## sconst 0) (sconst 0)
     = Some (Inr (\<lparr>game_settings =
                     \<lparr>game_count = 2, gs_winning_score = 5,
                      strategy_1 = ''alwaysFalse'', strategy_2 = ''alwaysTrue''\<rparr>,
                   win_count = (1, 1), win_margins = ([- 97, 100], [97, - 100]),
                   average_margins = (3 / 2, - (3 / 2))\<rparr>,
                  (\<lambda>_. \<lparr>winning_score = 0, current_score = 0\<rparr>)
                    (16 := \<lparr>winning_score = 5, current_score = 0\<rparr>,
                     17 := \<lparr>winning_score = 5, current_score = 5\<rparr>),
                  sconst 0, sconst 0))
   \<and> (1 :: int) + 1 = 2
   \<and> int (length [- 97, 100 :: int]) = 2 \<and> int (length [97, - 100 :: int]) = 2"
proof -
  have run: "runSimulationBlock (Suc 0) alwaysFalseStrategy alwaysTrueStrategy 5 2
       (\<lambda>_. \<lparr>winning_score = 0, current_score = 0\<rparr>) (2 ## 5 ## 4 ## sconst 0) (sconst 0)
     = Some (Inr (\<lparr>game_settings =
                     \<lparr>game_count = 2, gs_winning_score = 5,
                      strategy_1 = ''alwaysFalse'', strategy_2 = ''alwaysTrue''\<rparr>,
                   win_count = (1, 1), win_margins = ([- 97, 100], [97, - 100]),
                   average_margins = (3 / 2, - (3 / 2))\<rparr>,
                  (\<lambda>_. \<lparr>winning_score = 0, current_score = 0\<rparr>)
                    (16 := \<lparr>winning_score = 5, current_score = 0\<rparr>,
                     17 := \<lparr>winning_score = 5, current_score = 5\<rparr>),
                  sconst 0, sconst 0))"
    by (simp add: runSimulationBlock_def run_simps strategy_simps true_div_def numeral_2_eq_2)
  from batch_counts_and_margins [OF run] run show ?thesis
    by simp
qed

text \<open>
  C7. After the fold, \<open>testStrategies\<close> sets \<open>rate = wins / (wins + losses)\<close> in the
  overall, first and second bucket of every strategy; it raises \<open>ZeroDivisionError\<close>
  exactly when some strategy has a bucket with \<open>wins + losses = 0\<close>, and then returns
  no rates at all.
\<close>

theorem rates_or_ZeroDivisionError:
  "testStrategies match_data =
     (if \<exists>(strategy_name, a) \<in> set (foldl merge_batch [] match_data).
           wins (overall (win_loss_rate a)) + losses (overall (win_loss_rate a)) = 0
         \<or> wins (first (win_loss_rate a)) + losses (first (win_loss_rate a)) = 0
         \<or> wins (second (win_loss_rate a)) + losses (second (win_loss_rate a)) = 0
      then Inl ZeroDivisionError
      else Inr (map (\<lambda>(strategy_name, a).
                  (strategy_name,
                   a\<lparr>win_loss_rate :=
                       \<lparr>overall = rated (overall (win_loss_rate a)),
                        first = rated (first (win_loss_rate a)),
                        second = rated (second (win_loss_rate a))\<rparr>\<rparr>))
                (foldl merge_batch [] match_data)))"
  unfolding testStrategies_def by (rule add_winrates_eq)

theorem rates_or_ZeroDivisionError_witness:
  "testStrategies
     [\<lparr>game_settings = \<lparr>game_count = 2, gs_winning_score = 100,
        strategy_1 = ''alwaysFalse'', strategy_2 = ''alwaysTrue''\<rparr>,
      win_count = (0, 2), win_margins = ([- 50, - 30], [50, 30]),
      average_margins = (- 40, 40)\<rparr>] = Inl ZeroDivisionError
   \<and> testStrategies
     [\<lparr>game_settings = \<lparr>game_count = 2, gs_winning_score = 100,
        strategy_1 = ''alwaysFalse'', strategy_2 = ''alwaysTrue''\<rparr>,
      win_count = (1, 1), win_margins = ([- 50, 30], [50, - 30]),
      average_margins = (- 10, 10)\<rparr>,
      \<lparr>game_settings = \<lparr>game_count = 2, gs_winning_score = 100,
        strategy_1 = ''alwaysTrue'', strategy_2 = ''alwaysFalse''\<rparr>,
      win_count = (2, 0), win_margins = ([20, 30], [- 20, - 30]),
      average_margins = (25, - 25)\<rparr>]
     = Inr [(''alwaysFalse'',
             \<lparr>games_played = 4,
              average_margin = \<lparr>average = 14999 / 10001000, match_count = 2\<rparr>,
              win_loss_rate =
                \<lparr>overall = \<lparr>wins = 3, losses = 1, rate = Some (3 / 4)\<rparr>,
                 first = \<lparr>wins = 1, losses = 1, rate = Some (1 / 2)\<rparr>,
                 second = \<lparr>wins = 2, losses = 0, rate = Some 1\<rparr>\<rparr>\<rparr>),
            (''alwaysTrue'',
             \<lparr>games_played = 4,
              average_margin = \<lparr>average = 14999 / 10001000, match_count = 2\<rparr>,
              win_loss_rate =
                \<lparr>overall = \<lparr>wins = 3, losses = 1, rate = Some (3 / 4)\<rparr>,
                 first = \<lparr>wins = 2, losses = 0, rate = Some 1\<rparr>,
                 second = \<lparr>wins = 1, losses = 1, rate = Some (1 / 2)\<rparr>\<rparr>\<rparr>)]"
  using rates_or_ZeroDivisionError [of "[\<lparr>game_settings = \<lparr>game_count = 2, gs_winning_score = 100,
        strategy_1 = ''alwaysFalse'', strategy_2 = ''alwaysTrue''\<rparr>,
      win_count = (0, 2), win_margins = ([- 50, - 30], [50, 30]),
      average_margins = (- 40, 40)\<rparr>]"]
    rates_or_ZeroDivisionError [of
     "[\<lparr>game_settings = \<lparr>game_count = 2, gs_winning_score = 100,
        strategy_1 = ''alwaysFalse'', strategy_2 = ''alwaysTrue''\<rparr>,
      win_count = (1, 1), win_margins = ([- 50, 30], [50, - 30]),
      average_margins = (- 10, 10)\<rparr>,
      \<lparr>game_settings = \<lparr>game_count = 2, gs_winning_score = 100,
        strategy_1 = ''alwaysTrue'', strategy_2 = ''alwaysFalse''\<rparr>,
      win_count = (2, 0), win_margins = ([20, 30], [- 20, - 30]),
      average_margins = (25, - 25)\<rparr>]"]
  by (simp add: merge_batch_def merge_strategy_1_def merge_strategy_2_def)

text \<open>
  C1. Folding a batch record updates the entry of its first-listed strategy as follows:
  a strategy seen for the first time gets \<open>average = average_margins[0] / 10000\<close> and
  \<open>match_count = 1\<close>; otherwise the new average is
  \<open>average * match_count + average_margins[0] / (10000 * match_count + 1)\<close> and the match
  count grows by 1. This is the entry after the whole fold of the record whenever its two
  strategy names differ (for a record of a strategy against itself the update for the
  second-listed strategy is applied on top).
\<close>

theorem strategy_1_average_update:
  "(\<exists>a. map_of (merge_strategy_1 agg cr) (strategy_1 (game_settings cr)) = Some a
        \<and> average_margin a =
            (case map_of agg (strategy_1 (game_settings cr)) of
               None \<Rightarrow> \<lparr>average = fst (average_margins cr) / 10000, match_count = 1\<rparr>
             | Some cur \<Rightarrow>
                 \<lparr>average = average (average_margin cur) * of_int (match_count (average_margin cur))
                     + fst (average_margins cr)
                       / of_int (10000 * match_count (average_margin cur) + 1),
                  match_count = match_count (average_margin cur) + 1\<rparr>))
   \<and> (strategy_2 (game_settings cr) \<noteq> strategy_1 (game_settings cr) \<longrightarrow>
        map_of (merge_batch agg cr) (strategy_1 (game_settings cr))
          = map_of (merge_strategy_1 agg cr) (strategy_1 (game_settings cr)))"
proof
  show "\<exists>a. map_of (merge_strategy_1 agg cr) (strategy_1 (game_settings cr)) = Some a
        \<and> average_margin a =
            (case map_of agg (strategy_1 (game_settings cr)) of
               None \<Rightarrow> \<lparr>average = fst (average_margins cr) / 10000, match_count = 1\<rparr>
             | Some cur \<Rightarrow>
                 \<lparr>average = average (average_margin cur) * of_int (match_count (average_margin cur))
                     + fst (average_margins cr)
                       / of_int (10000 * match_count (average_margin cur) + 1),
                  match_count = match_count (average_margin cur) + 1\<rparr>)"
    by (cases "map_of agg (strategy_1 (game_settings cr))")
       (simp_all add: merge_strategy_1_def update_conv')
  show "strategy_2 (game_settings cr) \<noteq> strategy_1 (game_settings cr) \<longrightarrow>
        map_of (merge_batch agg cr) (strategy_1 (game_settings cr))
          = map_of (merge_strategy_1 agg cr) (strategy_1 (game_settings cr))"
    by (simp add: merge_batch_def merge_strategy_2_other)
qed

theorem strategy_1_average_update_witness:
  "strategy_2 (game_settings
       \<lparr>game_settings = \<lparr>game_count = 2, gs_winning_score = 100,
          strategy_1 = ''alwaysFalse'', strategy_2 = ''untilReach5''\<rparr>,
        win_count = (1, 1), win_margins = ([- 50, 30], [50, - 30]),
        average_margins = (- 10, 10)\<rparr>) \<noteq> ''alwaysFalse''
   \<and> map_option average_margin (map_of
       (merge_batch
          (merge_batch [] \<lparr>game_settings = \<lparr>game_count = 2, gs_winning_score = 100,
        strategy_1 = ''alwaysFalse'', strategy_2 = ''alwaysTrue''\<rparr>,
      win_count = (0, 2), win_margins = ([- 50, - 30], [50, 30]),
      average_margins = (- 40, 40)\<rparr>)
          \<lparr>game_settings = \<lparr>game_count = 2, gs_winning_score = 100,
             strategy_1 = ''alwaysFalse'', strategy_2 = ''untilReach5''\<rparr>,
           win_count = (1, 1), win_margins = ([- 50, 30], [50, - 30]),
           average_margins = (- 10, 10)\<rparr>) ''alwaysFalse'')
     = Some \<lparr>average = (- 40 / 10000) * 1 + (- 10) / (10000 * 1 + 1), match_count = 1 + 1\<rparr>"
  using strategy_1_average_update [of
      "merge_batch [] \<lparr>game_settings = \<lparr>game_count = 2, gs_winning_score = 100,
        strategy_1 = ''alwaysFalse'', strategy_2 = ''alwaysTrue''\<rparr>,
      win_count = (0, 2), win_margins = ([- 50, - 30], [50, 30]),
      average_margins = (- 40, 40)\<rparr>"
      "\<lparr>game_settings = \<lparr>game_count = 2, gs_winning_score = 100,
          strategy_1 = ''alwaysFalse'', strategy_2 = ''untilReach5''\<rparr>,
        win_count = (1, 1), win_margins = ([- 50, 30], [50, - 30]),
        average_margins = (- 10, 10)\<rparr>"]
  by (simp add: merge_batch_def merge_strategy_1_def merge_strategy_2_def)

text \<open>
  C2. Folding the record of a batch that \<open>alwaysTrue\<close>, listed second, won 2 to 0 with
  an average margin of 40: the entry of \<open>alwaysTrue\<close> gets the win count, the losses and
  the average margin of the first-listed strategy (0 wins, 2 losses, \<open>- 40 / 10000\<close>),
  on the first fold and on every later one. In general the fold of a record never reads
  \<open>win_count[1]\<close> or \<open>average_margins[1]\<close>: replacing them by any other values gives
  the same aggregate.
\<close>

theorem strategy_2_gets_strategy_1_numbers:
  "map_of (merge_batch [] \<lparr>game_settings = \<lparr>game_count = 2, gs_winning_score = 100,
        strategy_1 = ''alwaysFalse'', strategy_2 = ''alwaysTrue''\<rparr>,
      win_count = (0, 2), win_margins = ([- 50, - 30], [50, 30]),
      average_margins = (- 40, 40)\<rparr>) ''alwaysTrue''
     = Some \<lparr>games_played = 2,
             average_margin = \<lparr>average = - 40 / 10000, match_count = 1\<rparr>,
             win_loss_rate =
               \<lparr>overall = \<lparr>wins = 0, losses = 2, rate = None\<rparr>,
                first = \<lparr>wins = 0, losses = 0, rate = None\<rparr>,
                second = \<lparr>wins = 0, losses = 2, rate = None\<rparr>\<rparr>\<rparr>
   \<and> map_of (merge_batch (merge_batch [] \<lparr>game_settings = \<lparr>game_count = 2, gs_winning_score = 100,
        strategy_1 = ''alwaysFalse'', strategy_2 = ''alwaysTrue''\<rparr>,
      win_count = (0, 2), win_margins = ([- 50, - 30], [50, 30]),
      average_margins = (- 40, 40)\<rparr>)
        \<lparr>game_settings = \<lparr>game_count = 2, gs_winning_score = 100,
        strategy_1 = ''alwaysFalse'', strategy_2 = ''alwaysTrue''\<rparr>,
      win_count = (0, 2), win_margins = ([- 50, - 30], [50, 30]),
      average_margins = (- 40, 40)\<rparr>) ''alwaysTrue''
     = Some \<lparr>games_played = 4,
             average_margin =
               \<lparr>average = (- 40 / 10000) * 1 + (- 40) / (10000 * 1 + 1), match_count = 2\<rparr>,
             win_loss_rate =
               \<lparr>overall = \<lparr>wins = 0, losses = 4, rate = None\<rparr>,
                first = \<lparr>wins = 0, losses = 0, rate = None\<rparr>,
                second = \<lparr>wins = 0, losses = 4, rate = None\<rparr>\<rparr>\<rparr>
   \<and> (\<forall>wins2 average2.
         merge_batch agg (cr\<lparr>win_count := (fst (win_count cr), wins2),
                               average_margins := (fst (average_margins cr), average2)\<rparr>)
           = merge_batch agg cr)"
proof (intro conjI allI)
  show "merge_batch agg (cr\<lparr>win_count := (fst (win_count cr), wins2),
                               average_margins := (fst (average_margins cr), average2)\<rparr>)
           = merge_batch agg cr" for wins2 average2
    unfolding merge_batch_def merge_strategy_1_index_0 merge_strategy_2_index_0 ..
qed (simp_all add: merge_batch_def merge_strategy_1_def merge_strategy_2_def)

end
